theory Spec2Isabelle
  imports Main
begin

section \<open>Model handles (database/models.ts)\<close>

subsection \<open>Groups and collections\<close>

text \<open>
  The string enums of the source. Each enum is a datatype; its function \<open>_value\<close> gives the
  string the enum member stands for at run time.
\<close>

datatype Group = AUTH | USER | EVENT | ADMISSION | ATTENDEE | NEWSLETTER | REGISTRATION | SHOP | STAFF

fun Group_value :: "Group \<Rightarrow> string" where
  "Group_value AUTH = ''auth''"
| "Group_value USER = ''user''"
| "Group_value EVENT = ''event''"
| "Group_value ADMISSION = ''admission''"
| "Group_value ATTENDEE = ''attendee''"
| "Group_value NEWSLETTER = ''newsletter''"
| "Group_value REGISTRATION = ''registration''"
| "Group_value SHOP = ''shop''"
| "Group_value STAFF = ''staff''"

datatype AttendeeCollection = Attendee_METADATA | Attendee_PROFILE | Attendee_FOLLOWING

fun AttendeeCollection_value :: "AttendeeCollection \<Rightarrow> string" where
  "AttendeeCollection_value Attendee_METADATA = ''metadata''"
| "AttendeeCollection_value Attendee_PROFILE = ''profile''"
| "AttendeeCollection_value Attendee_FOLLOWING = ''following''"

datatype AuthCollection = Auth_INFO

fun AuthCollection_value :: "AuthCollection \<Rightarrow> string" where
  "AuthCollection_value Auth_INFO = ''info''"

datatype AdmissionCollection = Admission_DECISION

fun AdmissionCollection_value :: "AdmissionCollection \<Rightarrow> string" where
  "AdmissionCollection_value Admission_DECISION = ''decision''"

datatype EventCollection = Event_METADATA | Event_ATTENDANCE | Event_EVENTS | Event_FOLLOWERS

fun EventCollection_value :: "EventCollection \<Rightarrow> string" where
  "EventCollection_value Event_METADATA = ''metadata''"
| "EventCollection_value Event_ATTENDANCE = ''attendance''"
| "EventCollection_value Event_EVENTS = ''events''"
| "EventCollection_value Event_FOLLOWERS = ''followers''"

datatype NewsletterCollection = Newsletter_SUBSCRIPTIONS

fun NewsletterCollection_value :: "NewsletterCollection \<Rightarrow> string" where
  "NewsletterCollection_value Newsletter_SUBSCRIPTIONS = ''subscriptions''"

datatype RegistrationCollection = Registration_APPLICATIONS

fun RegistrationCollection_value :: "RegistrationCollection \<Rightarrow> string" where
  "RegistrationCollection_value Registration_APPLICATIONS = ''applications''"

datatype ShopCollection = Shop_ITEMS

fun ShopCollection_value :: "ShopCollection \<Rightarrow> string" where
  "ShopCollection_value Shop_ITEMS = ''items''"

datatype UserCollection = User_INFO | User_ATTENDANCE

fun UserCollection_value :: "UserCollection \<Rightarrow> string" where
  "UserCollection_value User_INFO = ''users''"
| "UserCollection_value User_ATTENDANCE = ''attendance''"

datatype StaffCollection = Staff_SHIFT

fun StaffCollection_value :: "StaffCollection \<Rightarrow> string" where
  "StaffCollection_value Staff_SHIFT = ''shift''"

subsection \<open>generateConfig and getModel\<close>

text \<open>The document classes imported from the \<open>*-db\<close> modules; only their identity matters here.\<close>

datatype DocumentClass =
    AttendeeMetadata | AttendeeProfile | AttendeeFollowing
  | AuthInfo
  | AdmissionDecision
  | Event | EventAttendance | EventFollowers
  | NewsletterSubscriptionClass
  | RegistrationApplication
  | ShopItem
  | UserInfo | UserAttendance
  | StaffShift

record SchemaOptions =
  collection :: string
  versionKey :: bool

record IModelOptions =
  schemaOptions :: SchemaOptions

definition generateConfig :: "string \<Rightarrow> IModelOptions" where
  "generateConfig coll = \<lparr>schemaOptions = \<lparr>collection = coll, versionKey = False\<rparr>\<rparr>"

text \<open>
  A model handle: the class it was built for and the options of its backing collection.
  The handles that exist are kept in a table keyed by the class, in the order of their
  creation.
\<close>

record ModelHandle =
  modelClass :: DocumentClass
  modelOptions :: IModelOptions

type_synonym HandleTable = "(DocumentClass \<times> ModelHandle) list"

text \<open>
  \<open>getModelForClass\<close> is imported from the typegoose package, which is not among the sources.
  What is modelled is the package's table of the models it has built. The table is keyed by
  the name of the class (\<open>getModel\<close> passes no naming option): a class that has a model gets
  that model back, whatever options come with the call; otherwise a model is built from the
  class and the options, and the table gains it.
\<close>

definition getModelForClass :: "DocumentClass \<Rightarrow> IModelOptions \<Rightarrow> HandleTable \<Rightarrow> ModelHandle \<times> HandleTable" where
  "getModelForClass cl opts tbl =
     (case map_of tbl cl of
        Some h \<Rightarrow> (h, tbl)
      | None \<Rightarrow>
          (let h = \<lparr>modelClass = cl, modelOptions = opts\<rparr>
           in (h, tbl @ [(cl, h)])))"

text \<open>The template literal \<open>`${group}_${collection}`\<close> of \<open>getModel\<close>.\<close>

definition collectionIdentifier :: "Group \<Rightarrow> string \<Rightarrow> string" where
  "collectionIdentifier grp coll = Group_value grp @ ''_'' @ coll"

definition getModel :: "DocumentClass \<Rightarrow> Group \<Rightarrow> string \<Rightarrow> HandleTable \<Rightarrow> ModelHandle \<times> HandleTable" where
  "getModel of_class grp coll tbl =
     getModelForClass of_class (generateConfig (collectionIdentifier grp coll)) tbl"

subsection \<open>The class Models\<close>

text \<open>
  The static members of \<open>Models\<close>, in the order of the source: the member's name, and the
  three arguments of its \<open>getModel\<close> call.
\<close>

definition Models_members :: "(string \<times> DocumentClass \<times> Group \<times> string) list" where
  "Models_members =
    [ (''AttendeeMetadata'', AttendeeMetadata, ATTENDEE, AttendeeCollection_value Attendee_METADATA),
      (''AttendeeProfile'', AttendeeProfile, ATTENDEE, AttendeeCollection_value Attendee_PROFILE),
      (''AttendeeFollowing'', AttendeeFollowing, ATTENDEE, AttendeeCollection_value Attendee_FOLLOWING),
      (''AuthInfo'', AuthInfo, AUTH, AuthCollection_value Auth_INFO),
      (''AdmissionDecision'', AdmissionDecision, ADMISSION, AdmissionCollection_value Admission_DECISION),
      (''Event'', Event, EVENT, EventCollection_value Event_EVENTS),
      (''EventAttendance'', EventAttendance, EVENT, EventCollection_value Event_ATTENDANCE),
      (''EventFollowers'', EventFollowers, EVENT, EventCollection_value Event_FOLLOWERS),
      (''NewsletterSubscription'', NewsletterSubscriptionClass, NEWSLETTER,
         NewsletterCollection_value Newsletter_SUBSCRIPTIONS),
      (''RegistrationApplication'', RegistrationApplication, REGISTRATION,
         RegistrationCollection_value Registration_APPLICATIONS),
      (''ShopItem'', ShopItem, SHOP, ShopCollection_value Shop_ITEMS),
      (''UserInfo'', UserInfo, USER, UserCollection_value User_INFO),
      (''UserAttendance'', UserAttendance, USER, UserCollection_value User_ATTENDANCE),
      (''StaffShift'', StaffShift, STAFF, StaffCollection_value Staff_SHIFT) ]"

text \<open>The identifier each member's \<open>getModel\<close> call derives.\<close>

definition Models_identifiers :: "string list" where
  "Models_identifiers = map (\<lambda>(name, cl, grp, coll). collectionIdentifier grp coll) Models_members"

text \<open>
  Class initialisation: the static initialisers run in order, each call of \<open>getModel\<close> on
  the table the earlier ones left. The result pairs every member's name with its handle.
\<close>

fun init_members :: "(string \<times> DocumentClass \<times> Group \<times> string) list \<Rightarrow> HandleTable
    \<Rightarrow> (string \<times> ModelHandle) list \<times> HandleTable" where
  "init_members [] tbl = ([], tbl)"
| "init_members ((name, cl, grp, coll) # ms) tbl =
     (case getModel cl grp coll tbl of
        (h, tbl') \<Rightarrow> (case init_members ms tbl' of (hs, tbl'') \<Rightarrow> ((name, h) # hs, tbl'')))"

definition Models :: "(string \<times> ModelHandle) list" where
  "Models = fst (init_members Models_members [])"

section \<open>Newsletter router (services/newsletter/newsletter-router.ts)\<close>

text \<open>
  The source file holds two versions of the router. The handler of \<open>POST /subscribe/\<close> is the
  same in both; the second version installs the origin check before it. The second version
  is the one modelled.
\<close>

subsection \<open>The stored documents and the storage operation\<close>

text \<open>
  A document of the collection behind \<open>Models.NewsletterSubscription\<close>: the key the handler
  filters on and the array the handler adds to. The collection is the list of its documents.
\<close>

record NewsletterSubscription =
  newsletterId :: string
  subscribers :: "string list"

type_synonym Collection = "NewsletterSubscription list"

text \<open>
  The three arguments the handler passes to \<open>findOneAndUpdate\<close>: the filter
  \<open>{ newsletterId: listName }\<close>, the update \<open>{ $addToSet: { subscribers: emailAddress } }\<close>
  and the options \<open>{ upsert: true }\<close>.
\<close>

record FilterQuery =
  filter_newsletterId :: string

datatype UpdateQuery = AddToSet_subscribers string

record QueryOptions =
  upsert :: bool

datatype StorageError = StorageError string

definition findOne :: "FilterQuery \<Rightarrow> Collection \<Rightarrow> NewsletterSubscription option" where
  "findOne flt coll = find (\<lambda>d. newsletterId d = filter_newsletterId flt) coll"

fun applyUpdate :: "UpdateQuery \<Rightarrow> NewsletterSubscription \<Rightarrow> NewsletterSubscription" where
  "applyUpdate (AddToSet_subscribers e) d =
     (if e \<in> set (subscribers d) then d else d\<lparr>subscribers := subscribers d @ [e]\<rparr>)"

fun updateFirst :: "FilterQuery \<Rightarrow> UpdateQuery \<Rightarrow> Collection \<Rightarrow> Collection" where
  "updateFirst flt upd [] = []"
| "updateFirst flt upd (d # ds) =
     (if newsletterId d = filter_newsletterId flt then applyUpdate upd d # ds
      else d # updateFirst flt upd ds)"

text \<open>
  Modelled from the spec: \<open>findOneAndUpdate\<close>, a method of the mongoose model, is not among
  the sources. The spec (4.3) gives what the call of the handler does, as one storage
  operation: find the document whose key equals the filter's; if found, add the address to
  its subscribers only if not already present; if not found (and \<open>upsert\<close> is set), create a
  document with that key whose subscribers are the address alone. The call returns the
  document it found, if any. The storage engine may also fail (spec 7): \<open>fault\<close> is the error
  it raises, if any, and then nothing is changed.
\<close>

definition findOneAndUpdate ::
    "StorageError option \<Rightarrow> FilterQuery \<Rightarrow> UpdateQuery \<Rightarrow> QueryOptions \<Rightarrow> Collection
      \<Rightarrow> StorageError + (NewsletterSubscription option \<times> Collection)" where
  "findOneAndUpdate fault flt upd opts coll =
     (case fault of
        Some err \<Rightarrow> Inl err
      | None \<Rightarrow>
          (case findOne flt coll of
             Some d \<Rightarrow> Inr (Some d, updateFirst flt upd coll)
           | None \<Rightarrow>
               if upsert opts
               then Inr (None, coll @ [applyUpdate upd \<lparr>newsletterId = filter_newsletterId flt, subscribers = []\<rparr>])
               else Inr (None, coll)))"

subsection \<open>Requests and outcomes\<close>

text \<open>
  The request: its \<open>Origin\<close> header and its body. The body is read at the type
  \<open>SubscribeRequest\<close>, whose two members are \<open>string | undefined\<close>; whatever else the body
  holds is in \<open>otherFields\<close>.
\<close>

record SubscribeRequest =
  listName :: "string option"
  emailAddress :: "string option"
  otherFields :: "(string \<times> string) list"

record Request =
  origin :: "string option"
  body :: SubscribeRequest

text \<open>
  What a middleware does with a request: it passes an error to \<open>next\<close>, it sends a response
  (a status and a JSON object), or its promise is rejected with the error of the storage
  engine.
\<close>

datatype Failure = RouterError nat string | JsError string

datatype Outcome = Next Failure | Send nat "(string \<times> string) list" | Rejected StorageError

definition ClientErrorBadRequest :: nat where
  "ClientErrorBadRequest = 400"

definition SuccessOK :: nat where
  "SuccessOK = 200"

text \<open>
  The operator \<open>!\<close> on a value of type \<open>string | undefined\<close>: true of \<open>undefined\<close> and of the
  empty string. After the test has failed the value is a string: \<open>narrowed\<close> reads it.
\<close>

fun falsy :: "string option \<Rightarrow> bool" where
  "falsy None = True"
| "falsy (Some s) = (s = [])"

fun narrowed :: "string option \<Rightarrow> string" where
  "narrowed (Some s) = s"
| "narrowed None = []"

subsection \<open>The origin callback\<close>

text \<open>
  A compiled pattern is what its method \<open>test\<close> answers on a string (the patterns are built
  without flags, so \<open>test\<close> keeps no state). The two patterns come from the configuration,
  which is not among the sources: they are a parameter.
\<close>

type_synonym RegExp = "string \<Rightarrow> bool"

record NEWSLETTER_CORS =
  PROD_REGEX :: RegExp
  DEPLOY_REGEX :: RegExp

definition allowedOrigins :: "NEWSLETTER_CORS \<Rightarrow> RegExp list" where
  "allowedOrigins cfg = [PROD_REGEX cfg, DEPLOY_REGEX cfg]"

text \<open>
  Modelled from the spec: \<open>regexPasses\<close> of \<open>newsletter-lib\<close> is not among the sources. The
  spec (4.2): the origin is tested against every rule of the rule set in order; a match with
  any rule allows the request, no match rejects it.
\<close>

definition regexPasses :: "string \<Rightarrow> RegExp list \<Rightarrow> bool" where
  "regexPasses target patterns = list_ex (\<lambda>pattern. pattern target) patterns"

text \<open>The callback \<open>corsOptions.origin\<close>: \<open>Inr allow\<close> is \<open>callback(null, allow)\<close>, \<open>Inl\<close> is \<open>callback(error)\<close>.\<close>

definition corsOptions_origin :: "NEWSLETTER_CORS \<Rightarrow> string option \<Rightarrow> Failure + bool" where
  "corsOptions_origin cfg orig =
     (if falsy orig \<or> regexPasses (narrowed orig) (allowedOrigins cfg)
      then Inr True
      else Inl (JsError ''Not allowed by CORS''))"

subsection \<open>The handler of POST /subscribe/ and the router\<close>

definition post_subscribe :: "StorageError option \<Rightarrow> Request \<Rightarrow> Collection \<Rightarrow> Outcome \<times> Collection" where
  "post_subscribe fault request coll =
     (let requestBody = body request;
          listName_v = listName requestBody;
          emailAddress_v = emailAddress requestBody
      in if falsy listName_v \<or> falsy emailAddress_v
         then (Next (RouterError ClientErrorBadRequest ''InvalidParams''), coll)
         else
           (let updateQuery = AddToSet_subscribers (narrowed emailAddress_v)
            in case findOneAndUpdate fault \<lparr>filter_newsletterId = narrowed listName_v\<rparr> updateQuery
                      \<lparr>upsert = True\<rparr> coll of
                 Inl err \<Rightarrow> (Rejected err, coll)
               | Inr (found, coll') \<Rightarrow> (Send SuccessOK [(''status'', ''Success'')], coll')))"

text \<open>
  The router: \<open>cors(corsOptions)\<close> is installed before the route. When the origin callback
  gives an error the middleware passes it to \<open>next\<close> and the route is skipped; otherwise the
  request goes on to the handler.
\<close>

definition newsletterRouter ::
    "NEWSLETTER_CORS \<Rightarrow> StorageError option \<Rightarrow> Request \<Rightarrow> Collection \<Rightarrow> Outcome \<times> Collection" where
  "newsletterRouter cfg fault request coll =
     (case corsOptions_origin cfg (origin request) of
        Inl err \<Rightarrow> (Next err, coll)
      | Inr allow \<Rightarrow> post_subscribe fault request coll)"

text \<open>The number of different subscribers of the list a filter selects (none when there is no such list).\<close>

definition subscriberCount :: "FilterQuery \<Rightarrow> Collection \<Rightarrow> nat" where
  "subscriberCount flt coll =
     (case findOne flt coll of None \<Rightarrow> 0 | Some d \<Rightarrow> card (set (subscribers d)))"

text \<open>
  An example configuration, for evaluating the origin callback: each of its two patterns
  accepts one origin.
\<close>

definition example_prod :: RegExp where
  "example_prod s = (s = ''https://hackillinois.org'')"

definition example_deploy :: RegExp where
  "example_deploy s = (s = ''https://preview.hackillinois.org'')"

definition example_cors :: NEWSLETTER_CORS where
  "example_cors = \<lparr>PROD_REGEX = example_prod, DEPLOY_REGEX = example_deploy\<rparr>"

text \<open>
  An example request, the one of the handler's documentation, and the document its first
  subscription creates.
\<close>

definition example_request :: Request where
  "example_request =
     \<lparr>origin = None,
      body = \<lparr>listName = Some ''testingList'', emailAddress = Some ''example@hackillinois.org'',
              otherFields = []\<rparr>\<rparr>"

definition example_list :: NewsletterSubscription where
  "example_list = \<lparr>newsletterId = ''testingList'', subscribers = [''example@hackillinois.org'']\<rparr>"

subsection \<open>Growth of a collection\<close>

text \<open>
  \<open>kept coll coll'\<close>: every document of \<open>coll\<close> is still in \<open>coll'\<close>, at its place, under the
  same key and with at least the subscribers it had; \<open>coll'\<close> may hold more documents.
\<close>

fun kept :: "Collection \<Rightarrow> Collection \<Rightarrow> bool" where
  "kept [] coll' = True"
| "kept (d # ds) [] = False"
| "kept (d # ds) (d' # ds') =
     (newsletterId d' = newsletterId d \<and> set (subscribers d) \<subseteq> set (subscribers d') \<and> kept ds ds')"

section \<open>Properties of the model handles\<close>

text \<open>
  C4: the collection identifiers \<open>`${domain}_${collectionTag}`\<close> derived for the members of
  the fixed table \<open>Models\<close> are pairwise distinct: the list of the fourteen identifiers,
  which is written out, has no repetition.
\<close>

theorem Models_identifiers_distinct:
  "Models_identifiers =
     [''attendee_metadata'', ''attendee_profile'', ''attendee_following'', ''auth_info'',
      ''admission_decision'', ''event_events'', ''event_attendance'', ''event_followers'',
      ''newsletter_subscriptions'', ''registration_applications'', ''shop_items'',
      ''user_users'', ''user_attendance'', ''staff_shift'']
   \<and> distinct Models_identifiers"
  by (simp add: Models_identifiers_def Models_members_def collectionIdentifier_def)


text \<open>The handle of the member the newsletter router uses, as class initialisation leaves it.\<close>

lemma Models_NewsletterSubscription:
  "map_of Models ''NewsletterSubscription'' =
     Some \<lparr>modelClass = NewsletterSubscriptionClass,
           modelOptions = \<lparr>schemaOptions = \<lparr>collection = ''newsletter_subscriptions'', versionKey = False\<rparr>\<rparr>\<rparr>"
  by code_simp




section \<open>Properties of the newsletter router\<close>

subsection \<open>The storage operation\<close>

lemma applyUpdate_newsletterId: "newsletterId (applyUpdate upd d) = newsletterId d"
  by (cases upd) auto

lemma applyUpdate_idem: "applyUpdate upd (applyUpdate upd d) = applyUpdate upd d"
  by (cases upd) auto

lemma applyUpdate_subscribers: "set (subscribers d) \<subseteq> set (subscribers (applyUpdate upd d))"
  by (cases upd) auto

lemma applyUpdate_adds: "upd = AddToSet_subscribers e \<Longrightarrow> e \<in> set (subscribers (applyUpdate upd d))"
  by auto

lemma updateFirst_idem: "updateFirst flt upd (updateFirst flt upd coll) = updateFirst flt upd coll"
  by (induction coll) (auto simp: applyUpdate_idem applyUpdate_newsletterId)

lemma findOne_updateFirst:
  "findOne flt (updateFirst flt upd coll) = map_option (applyUpdate upd) (findOne flt coll)"
  by (induction coll) (auto simp: findOne_def applyUpdate_newsletterId)

lemma findOne_append_new:
  "findOne flt coll = None \<Longrightarrow> newsletterId d = filter_newsletterId flt \<Longrightarrow> findOne flt (coll @ [d]) = Some d"
  by (induction coll) (auto simp: findOne_def split: if_splits)

lemma updateFirst_append_new:
  "findOne flt coll = None \<Longrightarrow> newsletterId d = filter_newsletterId flt
     \<Longrightarrow> updateFirst flt upd (coll @ [d]) = coll @ [applyUpdate upd d]"
  by (induction coll) (auto simp: findOne_def split: if_splits)

lemma findOneAndUpdate_no_fault: "\<exists>r. findOneAndUpdate None flt upd opts coll = Inr r"
  by (simp add: findOneAndUpdate_def split: option.splits)

text \<open>After an upsert the selected list exists, and a second upsert finds it and changes nothing.\<close>

lemma findOneAndUpdate_twice:
  assumes "findOneAndUpdate None flt upd \<lparr>upsert = True\<rparr> coll = Inr (r, coll1)"
  shows "\<exists>d. findOne flt coll1 = Some d \<and> applyUpdate upd d = d
           \<and> findOneAndUpdate None flt upd \<lparr>upsert = True\<rparr> coll1 = Inr (Some d, coll1)"
proof (cases "findOne flt coll")
  case None
  let ?d = "applyUpdate upd \<lparr>newsletterId = filter_newsletterId flt, subscribers = []\<rparr>"
  from None assms have c1: "coll1 = coll @ [?d]"
    by (simp add: findOneAndUpdate_def)
  have key: "newsletterId ?d = filter_newsletterId flt"
    by (simp add: applyUpdate_newsletterId)
  have f: "findOne flt coll1 = Some ?d"
    unfolding c1 using None key by (rule findOne_append_new)
  have "updateFirst flt upd coll1 = coll @ [applyUpdate upd ?d]"
    unfolding c1 using None key by (rule updateFirst_append_new)
  then have "updateFirst flt upd coll1 = coll1"
    by (simp only: applyUpdate_idem c1)
  with f show ?thesis by (simp add: findOneAndUpdate_def applyUpdate_idem)
next
  case (Some d)
  with assms have c1: "coll1 = updateFirst flt upd coll"
    by (simp add: findOneAndUpdate_def)
  have "findOne flt coll1 = Some (applyUpdate upd d)"
    unfolding c1 by (simp add: findOne_updateFirst Some)
  moreover have "updateFirst flt upd coll1 = coll1"
    unfolding c1 by (rule updateFirst_idem)
  ultimately show ?thesis by (simp add: findOneAndUpdate_def applyUpdate_idem)
qed

subsection \<open>The handler\<close>

text \<open>On a request whose two fields are non-empty strings the handler is its storage call.\<close>

lemma post_subscribe_valid:
  assumes "listName (body request) = Some l" "l \<noteq> []" "emailAddress (body request) = Some e" "e \<noteq> []"
  shows "post_subscribe fault request coll =
     (case findOneAndUpdate fault \<lparr>filter_newsletterId = l\<rparr> (AddToSet_subscribers e) \<lparr>upsert = True\<rparr> coll of
        Inl err \<Rightarrow> (Rejected err, coll)
      | Inr (found, coll') \<Rightarrow> (Send SuccessOK [(''status'', ''Success'')], coll'))"
  using assms by (simp add: post_subscribe_def)

text \<open>
  C2: when \<open>listName\<close> or \<open>emailAddress\<close> is missing or the empty string, the handler passes
  the router error with status 400 and message \<open>InvalidParams\<close> to \<open>next\<close>, and the collection
  is left as it is. The result is the same whatever the storage engine would have answered
  (\<open>fault\<close> is arbitrary): the storage operation is not called.
\<close>

theorem subscribe_invalid_params:
  assumes "listName (body request) = None \<or> listName (body request) = Some []
         \<or> emailAddress (body request) = None \<or> emailAddress (body request) = Some []"
  shows "post_subscribe fault request coll = (Next (RouterError 400 ''InvalidParams''), coll)"
  using assms by (auto simp: post_subscribe_def ClientErrorBadRequest_def)

theorem subscribe_invalid_params_witness:
  "emailAddress (body (example_request\<lparr>body := (body example_request)\<lparr>emailAddress := Some []\<rparr>\<rparr>)) = Some []
   \<and> post_subscribe (Some (StorageError ''down''))
        (example_request\<lparr>body := (body example_request)\<lparr>emailAddress := Some []\<rparr>\<rparr>) [example_list]
       = (Next (RouterError 400 ''InvalidParams''), [example_list])"
proof -
  let ?r = "example_request\<lparr>body := (body example_request)\<lparr>emailAddress := Some []\<rparr>\<rparr>"
  have h: "emailAddress (body ?r) = Some []"
    by simp
  then have "listName (body ?r) = None \<or> listName (body ?r) = Some []
         \<or> emailAddress (body ?r) = None \<or> emailAddress (body ?r) = Some []"
    by blast
  from subscribe_invalid_params [OF this] h show ?thesis
    by blast
qed

text \<open>
  C7: on a request whose \<open>listName\<close> and \<open>emailAddress\<close> are non-empty strings, when the
  storage operation succeeds the handler sends status 200 with the body
  \<open>{"status": "Success"}\<close>, and the collection is the one the storage operation left.
\<close>

theorem subscribe_success_response:
  assumes "listName (body request) = Some l" and "l \<noteq> []"
    and "emailAddress (body request) = Some e" and "e \<noteq> []"
    and "findOneAndUpdate fault \<lparr>filter_newsletterId = l\<rparr> (AddToSet_subscribers e) \<lparr>upsert = True\<rparr> coll
           = Inr (found, coll')"
  shows "post_subscribe fault request coll = (Send 200 [(''status'', ''Success'')], coll')"
  using assms(5) by (simp add: post_subscribe_valid [OF assms(1-4)] SuccessOK_def)

theorem subscribe_success_response_witness:
  "listName (body example_request) = Some ''testingList''
   \<and> emailAddress (body example_request) = Some ''example@hackillinois.org''
   \<and> findOneAndUpdate None \<lparr>filter_newsletterId = ''testingList''\<rparr>
        (AddToSet_subscribers ''example@hackillinois.org'') \<lparr>upsert = True\<rparr> [] = Inr (None, [example_list])
   \<and> post_subscribe None example_request [] = (Send 200 [(''status'', ''Success'')], [example_list])"
proof -
  have l: "listName (body example_request) = Some ''testingList''"
    and e: "emailAddress (body example_request) = Some ''example@hackillinois.org''"
    by (simp_all add: example_request_def)
  have op: "findOneAndUpdate None \<lparr>filter_newsletterId = ''testingList''\<rparr>
        (AddToSet_subscribers ''example@hackillinois.org'') \<lparr>upsert = True\<rparr> [] = Inr (None, [example_list])"
    by (simp add: findOneAndUpdate_def findOne_def example_list_def)
  have "post_subscribe None example_request [] = (Send 200 [(''status'', ''Success'')], [example_list])"
    by (rule subscribe_success_response [OF l _ e _ op]) simp_all
  with l e op show ?thesis by blast
qed

text \<open>
  C10: two requests that carry the same non-empty \<open>listName\<close> and \<open>emailAddress\<close>, whatever
  else they carry and whatever the collections they meet hold (the list may exist or not,
  the address may be in it or not), get the same response from the handler when the
  storage engine works: status 200 with the body \<open>{"status": "Success"}\<close>.
\<close>

theorem subscribe_response_independent:
  assumes "listName (body request1) = Some l" and "listName (body request2) = Some l" and "l \<noteq> []"
    and "emailAddress (body request1) = Some e" and "emailAddress (body request2) = Some e" and "e \<noteq> []"
  shows "fst (post_subscribe None request1 coll1) = Send 200 [(''status'', ''Success'')]
       \<and> fst (post_subscribe None request2 coll2) = fst (post_subscribe None request1 coll1)"
proof -
  have "fst (post_subscribe None request coll) = Send 200 [(''status'', ''Success'')]"
    if "listName (body request) = Some l" "emailAddress (body request) = Some e" for request coll
    using findOneAndUpdate_no_fault [of "\<lparr>filter_newsletterId = l\<rparr>" "AddToSet_subscribers e" "\<lparr>upsert = True\<rparr>" coll]
    by (auto simp: post_subscribe_valid [OF that(1) assms(3) that(2) assms(6)] SuccessOK_def)
  with assms show ?thesis by simp
qed

theorem subscribe_response_independent_witness:
  "listName (body example_request) = Some ''testingList''
   \<and> listName (body (example_request\<lparr>body := (body example_request)\<lparr>otherFields := [(''admin'', ''true'')]\<rparr>\<rparr>))
       = Some ''testingList''
   \<and> emailAddress (body example_request) = Some ''example@hackillinois.org''
   \<and> emailAddress (body (example_request\<lparr>body := (body example_request)\<lparr>otherFields := [(''admin'', ''true'')]\<rparr>\<rparr>))
       = Some ''example@hackillinois.org''
   \<and> fst (post_subscribe None example_request []) = Send 200 [(''status'', ''Success'')]
   \<and> fst (post_subscribe None
        (example_request\<lparr>body := (body example_request)\<lparr>otherFields := [(''admin'', ''true'')]\<rparr>\<rparr>) [example_list])
       = fst (post_subscribe None example_request [])"
proof -
  let ?r2 = "example_request\<lparr>body := (body example_request)\<lparr>otherFields := [(''admin'', ''true'')]\<rparr>\<rparr>"
  have l1: "listName (body example_request) = Some ''testingList''"
    and e1: "emailAddress (body example_request) = Some ''example@hackillinois.org''"
    by (simp_all add: example_request_def)
  have l2: "listName (body ?r2) = Some ''testingList''"
    and e2: "emailAddress (body ?r2) = Some ''example@hackillinois.org''"
    by (simp_all add: example_request_def)
  have ne: "''testingList'' \<noteq> []" "''example@hackillinois.org'' \<noteq> []"
    by simp_all
  from subscribe_response_independent [OF l1 l2 ne(1) e1 e2 ne(2), of "[]" "[example_list]"] l1 l2 e1 e2
  show ?thesis by blast
qed

text \<open>
  C5: on a request whose \<open>listName\<close> and \<open>emailAddress\<close> are non-empty strings, when the
  collection holds no document whose \<open>newsletterId\<close> is \<open>listName\<close> and the storage engine
  works, the handler leaves the collection with exactly one more document: its
  \<open>newsletterId\<close> is \<open>listName\<close> and its subscribers are \<open>emailAddress\<close> alone.
\<close>

theorem subscribe_creates_list:
  assumes "listName (body request) = Some l" and "l \<noteq> []"
    and "emailAddress (body request) = Some e" and "e \<noteq> []"
    and "findOne \<lparr>filter_newsletterId = l\<rparr> coll = None"
  shows "post_subscribe None request coll =
           (Send 200 [(''status'', ''Success'')], coll @ [\<lparr>newsletterId = l, subscribers = [e]\<rparr>])"
  using assms(5) by (simp add: post_subscribe_valid [OF assms(1-4)] findOneAndUpdate_def SuccessOK_def)

theorem subscribe_creates_list_witness:
  "listName (body example_request) = Some ''testingList''
   \<and> emailAddress (body example_request) = Some ''example@hackillinois.org''
   \<and> findOne \<lparr>filter_newsletterId = ''testingList''\<rparr> [\<lparr>newsletterId = ''other'', subscribers = []\<rparr>] = None
   \<and> post_subscribe None example_request [\<lparr>newsletterId = ''other'', subscribers = []\<rparr>] =
       (Send 200 [(''status'', ''Success'')],
        [\<lparr>newsletterId = ''other'', subscribers = []\<rparr>,
         \<lparr>newsletterId = ''testingList'', subscribers = [''example@hackillinois.org'']\<rparr>])"
proof -
  have l: "listName (body example_request) = Some ''testingList''"
    and e: "emailAddress (body example_request) = Some ''example@hackillinois.org''"
    by (simp_all add: example_request_def)
  have n: "findOne \<lparr>filter_newsletterId = ''testingList''\<rparr> [\<lparr>newsletterId = ''other'', subscribers = []\<rparr>] = None"
    by (simp add: findOne_def)
  have ne: "''testingList'' \<noteq> []" "''example@hackillinois.org'' \<noteq> []"
    by simp_all
  from subscribe_creates_list [OF l ne(1) e ne(2) n] l e n show ?thesis
    by simp
qed

text \<open>
  C1: on a request whose \<open>listName\<close> and \<open>emailAddress\<close> are non-empty strings, after a first
  successful call of the handler the list exists and holds the address, and a second call
  with the same request leaves the collection as the first call left it; the number of
  subscribers of the list is therefore the same after the second call.
\<close>

theorem subscribe_twice_same_size:
  assumes "listName (body request) = Some l" and "l \<noteq> []"
    and "emailAddress (body request) = Some e" and "e \<noteq> []"
    and "post_subscribe None request coll = (out, coll1)"
  shows "subscriberCount \<lparr>filter_newsletterId = l\<rparr> (snd (post_subscribe None request coll1))
           = subscriberCount \<lparr>filter_newsletterId = l\<rparr> coll1
       \<and> post_subscribe None request coll1 = (Send 200 [(''status'', ''Success'')], coll1)
       \<and> (\<exists>d. findOne \<lparr>filter_newsletterId = l\<rparr> coll1 = Some d \<and> e \<in> set (subscribers d))"
proof -
  let ?flt = "\<lparr>filter_newsletterId = l\<rparr>" and ?upd = "AddToSet_subscribers e"
  obtain r c where rc: "findOneAndUpdate None ?flt ?upd \<lparr>upsert = True\<rparr> coll = Inr (r, c)"
    using findOneAndUpdate_no_fault by (metis surj_pair)
  with assms(5) have "c = coll1"
    by (simp add: post_subscribe_valid [OF assms(1-4)])
  with rc obtain d where d: "findOne ?flt coll1 = Some d" "applyUpdate ?upd d = d"
      "findOneAndUpdate None ?flt ?upd \<lparr>upsert = True\<rparr> coll1 = Inr (Some d, coll1)"
    using findOneAndUpdate_twice by blast
  from d(3) have again: "post_subscribe None request coll1 = (Send 200 [(''status'', ''Success'')], coll1)"
    by (simp add: post_subscribe_valid [OF assms(1-4)] SuccessOK_def)
  have "e \<in> set (subscribers (applyUpdate ?upd d))"
    by (rule applyUpdate_adds) simp
  with d(2) have "e \<in> set (subscribers d)"
    by simp
  with d(1) again show ?thesis by simp
qed

theorem subscribe_twice_same_size_witness:
  "listName (body example_request) = Some ''testingList''
   \<and> emailAddress (body example_request) = Some ''example@hackillinois.org''
   \<and> post_subscribe None example_request [] = (Send 200 [(''status'', ''Success'')], [example_list])
   \<and> post_subscribe None example_request [example_list] = (Send 200 [(''status'', ''Success'')], [example_list])
   \<and> subscriberCount \<lparr>filter_newsletterId = ''testingList''\<rparr> (snd (post_subscribe None example_request [example_list]))
       = subscriberCount \<lparr>filter_newsletterId = ''testingList''\<rparr> [example_list]
   \<and> subscriberCount \<lparr>filter_newsletterId = ''testingList''\<rparr> [example_list] = 1"
proof -
  have l: "listName (body example_request) = Some ''testingList''"
    and e: "emailAddress (body example_request) = Some ''example@hackillinois.org''"
    by (simp_all add: example_request_def)
  have ne: "''testingList'' \<noteq> []" "''example@hackillinois.org'' \<noteq> []"
    by simp_all
  have first: "post_subscribe None example_request [] = (Send 200 [(''status'', ''Success'')], [example_list])"
    by (simp add: post_subscribe_valid [OF l ne(1) e ne(2)] findOneAndUpdate_def findOne_def
        example_list_def SuccessOK_def)
  have one: "subscriberCount \<lparr>filter_newsletterId = ''testingList''\<rparr> [example_list] = 1"
    by (simp add: subscriberCount_def findOne_def example_list_def)
  from subscribe_twice_same_size [OF l ne(1) e ne(2) first] l e first one show ?thesis
    by blast
qed

subsection \<open>No list and no subscriber is removed\<close>

lemma kept_refl: "kept coll coll"
  by (induction coll) auto

lemma kept_append: "kept coll (coll @ ds)"
  by (induction coll) auto

lemma kept_updateFirst: "kept coll (updateFirst flt upd coll)"
  by (induction coll) (auto simp: applyUpdate_newsletterId kept_refl applyUpdate_subscribers [THEN subsetD])

text \<open>What \<open>kept\<close> says, document by document.\<close>

lemma kept_nth:
  "kept coll coll' \<Longrightarrow> length coll \<le> length coll' \<and>
     (\<forall>i<length coll. newsletterId (coll' ! i) = newsletterId (coll ! i)
        \<and> set (subscribers (coll ! i)) \<subseteq> set (subscribers (coll' ! i)))"
proof (induction coll coll' rule: kept.induct)
  case (3 d ds d' ds')
  then show ?case by (auto simp: nth_Cons split: nat.splits)
qed auto

lemma kept_findOneAndUpdate:
  "findOneAndUpdate fault flt upd opts coll = Inr (r, coll') \<Longrightarrow> kept coll coll'"
  by (auto simp: findOneAndUpdate_def kept_refl kept_append kept_updateFirst
      split: option.splits if_splits)

lemma kept_post_subscribe: "kept coll (snd (post_subscribe fault request coll))"
  by (auto simp: post_subscribe_def Let_def kept_refl dest: kept_findOneAndUpdate
      split: sum.splits prod.splits)

text \<open>
  C8: whatever the request, the configuration and the answer of the storage engine, a step
  of the handler, and so a step of the router, keeps every document of the collection, under
  its key, with at least the subscribers it had: no list and no subscriber is removed.
\<close>

theorem no_list_or_subscriber_removed:
  "kept coll (snd (post_subscribe fault request coll))
   \<and> kept coll (snd (newsletterRouter cfg fault request coll))"
  by (simp add: kept_post_subscribe newsletterRouter_def kept_refl split: sum.splits)

theorem no_list_or_subscriber_removed_witness:
  "snd (post_subscribe None example_request [\<lparr>newsletterId = ''testingList'', subscribers = [''a@b.c'']\<rparr>])
     = [\<lparr>newsletterId = ''testingList'', subscribers = [''a@b.c'', ''example@hackillinois.org'']\<rparr>]
   \<and> kept [\<lparr>newsletterId = ''testingList'', subscribers = [''a@b.c'']\<rparr>]
        [\<lparr>newsletterId = ''testingList'', subscribers = [''a@b.c'', ''example@hackillinois.org'']\<rparr>]"
proof -
  have l: "listName (body example_request) = Some ''testingList''"
    and e: "emailAddress (body example_request) = Some ''example@hackillinois.org''"
    by (simp_all add: example_request_def)
  have ne: "''testingList'' \<noteq> []" "''example@hackillinois.org'' \<noteq> []"
    by simp_all
  have step: "snd (post_subscribe None example_request [\<lparr>newsletterId = ''testingList'', subscribers = [''a@b.c'']\<rparr>])
     = [\<lparr>newsletterId = ''testingList'', subscribers = [''a@b.c'', ''example@hackillinois.org'']\<rparr>]"
    by (simp add: post_subscribe_valid [OF l ne(1) e ne(2)] findOneAndUpdate_def findOne_def)
  from no_list_or_subscriber_removed [of "[\<lparr>newsletterId = ''testingList'', subscribers = [''a@b.c'']\<rparr>]"
      None example_request example_cors]
  have "kept [\<lparr>newsletterId = ''testingList'', subscribers = [''a@b.c'']\<rparr>]
     (snd (post_subscribe None example_request [\<lparr>newsletterId = ''testingList'', subscribers = [''a@b.c'']\<rparr>]))"
    by (rule conjunct1)
  with step show ?thesis by simp
qed

subsection \<open>The origin gate\<close>

text \<open>
  C6, as the code has it: when the \<open>Origin\<close> header is absent or empty the origin callback
  allows the request; when it is a non-empty string that the production pattern or the
  deployment pattern matches, the request is allowed; when it is a non-empty string that
  neither pattern matches, the callback gives the error \<open>Not allowed by CORS\<close>. When the
  callback gives an error the router passes it on and the handler does not run (the
  collection is untouched, whatever the storage engine would answer); otherwise the request
  reaches the handler.
\<close>

theorem origin_gate:
  "(orig = None \<or> orig = Some [] \<longrightarrow> corsOptions_origin cfg orig = Inr True)
   \<and> (orig = Some ov \<and> ov \<noteq> [] \<and> (PROD_REGEX cfg ov \<or> DEPLOY_REGEX cfg ov)
        \<longrightarrow> corsOptions_origin cfg orig = Inr True)
   \<and> (orig = Some ov \<and> ov \<noteq> [] \<and> \<not> PROD_REGEX cfg ov \<and> \<not> DEPLOY_REGEX cfg ov
        \<longrightarrow> corsOptions_origin cfg orig = Inl (JsError ''Not allowed by CORS''))
   \<and> (corsOptions_origin cfg (origin request) = Inl err
        \<longrightarrow> newsletterRouter cfg fault request coll = (Next err, coll))
   \<and> (corsOptions_origin cfg (origin request) = Inr allow
        \<longrightarrow> newsletterRouter cfg fault request coll = post_subscribe fault request coll)"
  by (auto simp: corsOptions_origin_def regexPasses_def allowedOrigins_def newsletterRouter_def)

theorem origin_gate_witness:
  "corsOptions_origin example_cors None = Inr True
   \<and> PROD_REGEX example_cors ''https://hackillinois.org''
   \<and> corsOptions_origin example_cors (Some ''https://hackillinois.org'') = Inr True
   \<and> \<not> PROD_REGEX example_cors ''https://evil.example.com''
   \<and> \<not> DEPLOY_REGEX example_cors ''https://evil.example.com''
   \<and> corsOptions_origin example_cors (Some ''https://evil.example.com'') = Inl (JsError ''Not allowed by CORS'')
   \<and> newsletterRouter example_cors None (example_request\<lparr>origin := Some ''https://evil.example.com''\<rparr>) []
       = (Next (JsError ''Not allowed by CORS''), [])
   \<and> newsletterRouter example_cors None example_request [] = post_subscribe None example_request []"
proof -
  let ?evil = "''https://evil.example.com''"
  have p: "PROD_REGEX example_cors ''https://hackillinois.org''"
    and np: "\<not> PROD_REGEX example_cors ?evil" and nd: "\<not> DEPLOY_REGEX example_cors ?evil"
    by (simp_all add: example_cors_def example_prod_def example_deploy_def)
  have a: "corsOptions_origin example_cors None = Inr True"
    using origin_gate [of None example_cors] by blast
  have b: "corsOptions_origin example_cors (Some ''https://hackillinois.org'') = Inr True"
    using origin_gate [of "Some ''https://hackillinois.org''" example_cors "''https://hackillinois.org''"] p
    by simp
  have c: "corsOptions_origin example_cors (Some ?evil) = Inl (JsError ''Not allowed by CORS'')"
    using origin_gate [of "Some ?evil" example_cors ?evil] np nd
    by simp
  have o: "origin (example_request\<lparr>origin := Some ?evil\<rparr>) = Some ?evil"
    by simp
  have d: "newsletterRouter example_cors None (example_request\<lparr>origin := Some ?evil\<rparr>) []
       = (Next (JsError ''Not allowed by CORS''), [])"
    using origin_gate [of _ example_cors _ "example_request\<lparr>origin := Some ?evil\<rparr>"
        "JsError ''Not allowed by CORS''" None "[]"] c
    unfolding o by blast
  have o': "origin example_request = None"
    by (simp add: example_request_def)
  have e: "newsletterRouter example_cors None example_request [] = post_subscribe None example_request []"
    using origin_gate [of _ example_cors _ example_request _ None "[]" True] a
    unfolding o' by blast
  from a p b np nd c d e show ?thesis by blast
qed

text \<open>
  The claim C6 as the spec states it fails where the \<open>Origin\<close> header is present and empty:
  neither pattern of the example configuration matches the empty string, and yet the
  callback allows the request, which reaches the handler and is served.
\<close>

theorem origin_gate_empty_origin_allowed:
  "\<not> PROD_REGEX example_cors [] \<and> \<not> DEPLOY_REGEX example_cors []
   \<and> corsOptions_origin example_cors (Some []) = Inr True
   \<and> newsletterRouter example_cors None (example_request\<lparr>origin := Some []\<rparr>) []
       = (Send 200 [(''status'', ''Success'')], [example_list])"
  by (simp add: example_cors_def example_prod_def example_deploy_def corsOptions_origin_def
      newsletterRouter_def post_subscribe_def example_request_def example_list_def
      findOneAndUpdate_def findOne_def SuccessOK_def)

end
